theory Spec2Isabelle
  imports Complex_Main
begin

section \<open>Common types\<close>

text \<open>
  JavaScript numbers and SQL DECIMAL amounts are modelled as exact rationals; a JavaScript
  Date is its \<open>getTime()\<close> value (milliseconds since the epoch). Every \<open>throw\<close> of the
  source and every rejected store statement is a value of type \<open>error\<close>.
\<close>

type_synonym number = rat
type_synonym date = int
type_synonym object_id = string

datatype error =
    ValidationError
  | Error string
  | ApiError string nat
  | DatabaseError string

section \<open>The Invoice model (models/Invoice.js)\<close>

datatype invoice_status =
  Draft | Sent | Overdue | Paid | Partially_paid | Cancelled | Written_off

record invoice_item =
  item_id :: object_id
  item_quantity :: number
  item_unit_price :: number
  item_discount :: number
  item_tax_rate :: number
  item_total :: number

record invoice =
  inv_id :: object_id
  inv_tenant_id :: object_id
  invoice_info_issue_date :: "date option"
  invoice_info_due_date :: "date option"
  items :: "invoice_item list"
  totals_subtotal :: number
  totals_discount_amount :: number
  totals_tax_amount :: number
  totals_total_amount :: number
  totals_paid_amount :: number
  totals_balance_due :: number
  inv_status :: invoice_status
  payment_terms_due_days :: int
  sent_at :: "date option"
  paid_at :: "date option"
  inv_deleted_at :: "date option"

text \<open>
  The virtual \<open>days_overdue\<close>: \<open>Math.ceil(diffTime / (1000 * 60 * 60 * 24))\<close> on integer
  milliseconds; \<open>today\<close> is the \<open>new Date()\<close> of the call.
\<close>

definition days_overdue :: "date \<Rightarrow> invoice \<Rightarrow> int" where
  "days_overdue today doc =
     (if inv_status doc = Paid \<or> inv_status doc = Cancelled then 0
      else case invoice_info_due_date doc of
             None \<Rightarrow> 0
           | Some dueDate \<Rightarrow> - ((- (today - dueDate)) div (1000 * 60 * 60 * 24)))"

definition is_overdue :: "date \<Rightarrow> invoice \<Rightarrow> bool" where
  "is_overdue today doc \<longleftrightarrow> days_overdue today doc > 0 \<and> inv_status doc \<noteq> Paid"

text \<open>
  The \<open>pre('save')\<close> hook. The \<open>forEach\<close> loop over the items carries the items already
  rewritten, \<open>subtotal\<close> and \<open>taxAmount\<close>. \<open>setDate(getDate() + due_days)\<close> moves the
  due date by whole days, taken as 24 hours each.
\<close>

definition itemTotal :: "invoice_item \<Rightarrow> number" where
  "itemTotal item = (item_unit_price item * item_quantity item) - item_discount item"

definition forEach_item ::
  "invoice_item \<Rightarrow> invoice_item list \<times> number \<times> number \<Rightarrow> invoice_item list \<times> number \<times> number"
where
  "forEach_item item acc =
     (case acc of (seen, subtotal, taxAmount) \<Rightarrow>
        (seen @ [item\<lparr>item_total := itemTotal item\<rparr>],
         subtotal + itemTotal item,
         taxAmount + itemTotal item * item_tax_rate item))"

definition set_due_date :: "invoice \<Rightarrow> invoice" where
  "set_due_date doc =
     (case (invoice_info_due_date doc, invoice_info_issue_date doc) of
        (None, Some issue) \<Rightarrow>
          doc\<lparr>invoice_info_due_date :=
                Some (issue + payment_terms_due_days doc * (1000 * 60 * 60 * 24))\<rparr>
      | _ \<Rightarrow> doc)"

definition update_status :: "date \<Rightarrow> invoice \<Rightarrow> invoice" where
  "update_status now doc =
     (if totals_balance_due doc \<le> 0 \<and> totals_paid_amount doc > 0 then
        doc\<lparr>inv_status := Paid,
            paid_at := (case paid_at doc of None \<Rightarrow> Some now | Some t \<Rightarrow> Some t)\<rparr>
      else if totals_paid_amount doc > 0 \<and> totals_balance_due doc > 0 then
        doc\<lparr>inv_status := Partially_paid\<rparr>
      else if is_overdue now doc \<and> inv_status doc \<noteq> Cancelled then
        doc\<lparr>inv_status := Overdue\<rparr>
      else doc)"

definition pre_save :: "date \<Rightarrow> invoice \<Rightarrow> invoice" where
  "pre_save now doc =
     (case fold forEach_item (items doc) ([], 0, 0) of (items', subtotal, taxAmount) \<Rightarrow>
        let doc1 = doc\<lparr>items := items',
                       totals_subtotal := subtotal,
                       totals_discount_amount :=
                         fold (\<lambda>item acc. acc + item_discount item) items' 0,
                       totals_tax_amount := taxAmount,
                       totals_total_amount := subtotal + taxAmount\<rparr>;
            doc2 = doc1\<lparr>totals_balance_due :=
                         totals_total_amount doc1 - totals_paid_amount doc1\<rparr>
        in update_status now (set_due_date doc2))"

text \<open>
  The schema's validators (\<open>min\<close>, \<open>max\<close>, \<open>required\<close>) on the numeric paths and on the due
  date. Mongoose runs validation as the first \<open>pre('save')\<close> hook, so a document is
  validated as the caller left it, before the hook above recomputes the totals.
\<close>

definition validate_item :: "invoice_item \<Rightarrow> bool" where
  "validate_item item \<longleftrightarrow>
     item_quantity item \<ge> 1 \<and> item_unit_price item \<ge> 0 \<and> item_discount item \<ge> 0 \<and>
     item_tax_rate item \<ge> 0 \<and> item_tax_rate item \<le> 1 \<and> item_total item \<ge> 0"

definition validate_invoice :: "invoice \<Rightarrow> bool" where
  "validate_invoice doc \<longleftrightarrow>
     list_all validate_item (items doc) \<and>
     totals_subtotal doc \<ge> 0 \<and> totals_discount_amount doc \<ge> 0 \<and>
     totals_tax_amount doc \<ge> 0 \<and> totals_total_amount doc \<ge> 0 \<and>
     totals_paid_amount doc \<ge> 0 \<and> totals_balance_due doc \<ge> 0 \<and>
     invoice_info_due_date doc \<noteq> None \<and> payment_terms_due_days doc \<ge> 0"

definition save :: "date \<Rightarrow> invoice \<Rightarrow> error + invoice" where
  "save now doc = (if validate_invoice doc then Inr (pre_save now doc) else Inl ValidationError)"

subsection \<open>Instance methods\<close>

definition addItem :: "date \<Rightarrow> invoice \<Rightarrow> invoice_item \<Rightarrow> error + invoice" where
  "addItem now doc item = save now (doc\<lparr>items := items doc @ [item]\<rparr>)"

definition removeItem :: "date \<Rightarrow> invoice \<Rightarrow> object_id \<Rightarrow> error + invoice" where
  "removeItem now doc itemId =
     save now (doc\<lparr>items := filter (\<lambda>item. item_id item \<noteq> itemId) (items doc)\<rparr>)"

text \<open>\<open>Object.assign(item, updates)\<close> on the first item with the given id.\<close>

fun assign_first ::
  "object_id \<Rightarrow> (invoice_item \<Rightarrow> invoice_item) \<Rightarrow> invoice_item list \<Rightarrow> invoice_item list"
where
  "assign_first itemId updates [] = []"
| "assign_first itemId updates (item # rest) =
     (if item_id item = itemId then updates item # rest
      else item # assign_first itemId updates rest)"

definition updateItem ::
  "date \<Rightarrow> invoice \<Rightarrow> object_id \<Rightarrow> (invoice_item \<Rightarrow> invoice_item) \<Rightarrow> error + invoice"
where
  "updateItem now doc itemId updates =
     save now (doc\<lparr>items := assign_first itemId updates (items doc)\<rparr>)"

definition send :: "date \<Rightarrow> invoice \<Rightarrow> error + invoice" where
  "send now doc = save now (doc\<lparr>inv_status := Sent, sent_at := Some now\<rparr>)"

definition addPayment :: "date \<Rightarrow> invoice \<Rightarrow> number \<Rightarrow> error + invoice" where
  "addPayment now doc amount =
     save now (doc\<lparr>totals_paid_amount := totals_paid_amount doc + amount\<rparr>)"

definition cancel :: "date \<Rightarrow> invoice \<Rightarrow> error + invoice" where
  "cancel now doc = save now (doc\<lparr>inv_status := Cancelled\<rparr>)"

definition writeOff :: "date \<Rightarrow> invoice \<Rightarrow> error + invoice" where
  "writeOff now doc = save now (doc\<lparr>inv_status := Written_off, totals_balance_due := 0\<rparr>)"

definition softDelete :: "date \<Rightarrow> invoice \<Rightarrow> error + invoice" where
  "softDelete now doc = save now (doc\<lparr>inv_deleted_at := Some now\<rparr>)"

definition restore :: "date \<Rightarrow> invoice \<Rightarrow> error + invoice" where
  "restore now doc = save now (doc\<lparr>inv_deleted_at := None\<rparr>)"

text \<open>One call of an instance method on a loaded invoice.\<close>

datatype invoice_call =
    Call_save
  | Call_addItem invoice_item
  | Call_removeItem object_id
  | Call_updateItem object_id "invoice_item \<Rightarrow> invoice_item"
  | Call_send
  | Call_addPayment number
  | Call_cancel
  | Call_writeOff
  | Call_softDelete
  | Call_restore

fun invoice_method :: "date \<Rightarrow> invoice \<Rightarrow> invoice_call \<Rightarrow> error + invoice" where
  "invoice_method now doc Call_save = save now doc"
| "invoice_method now doc (Call_addItem item) = addItem now doc item"
| "invoice_method now doc (Call_removeItem itemId) = removeItem now doc itemId"
| "invoice_method now doc (Call_updateItem itemId updates) = updateItem now doc itemId updates"
| "invoice_method now doc Call_send = send now doc"
| "invoice_method now doc (Call_addPayment amount) = addPayment now doc amount"
| "invoice_method now doc Call_cancel = cancel now doc"
| "invoice_method now doc Call_writeOff = writeOff now doc"
| "invoice_method now doc Call_softDelete = softDelete now doc"
| "invoice_method now doc Call_restore = restore now doc"

section \<open>The Payment model (models/Payment.js)\<close>

datatype payment_status =
  Pending | Processing | Completed | Failed | Payment_cancelled | Refunded | Partially_refunded

record allocation_entry =
  alloc_invoice_id :: object_id
  alloc_amount :: number
  alloc_allocated_at :: date

record payment =
  pay_id :: object_id
  pay_tenant_id :: object_id
  pay_invoice_id :: "object_id option"
  payment_info_amount :: number
  pay_status :: payment_status
  processing_info_processed_at :: "date option"
  processing_info_processed_by :: "object_id option"
  refund_info_refund_amount :: number
  refund_info_refund_reason :: "string option"
  refund_info_refunded_at :: "date option"
  refund_info_refunded_by :: "object_id option"
  allocation :: "allocation_entry list"
  notes_internal :: "string option"
  pay_deleted_at :: "date option"


definition refund_exceeds_payment :: error where
  "refund_exceeds_payment = Error ''Refund amount cannot exceed payment amount''"


definition validate_payment :: "payment \<Rightarrow> bool" where
  "validate_payment p \<longleftrightarrow>
     payment_info_amount p \<ge> 0 \<and> refund_info_refund_amount p \<ge> 0 \<and>
     list_all (\<lambda>a. alloc_amount a \<ge> 0) (allocation p)"

definition payment_save :: "payment \<Rightarrow> error + payment" where
  "payment_save p =
     (if \<not> validate_payment p then Inl ValidationError
      else if refund_info_refund_amount p > payment_info_amount p then Inl refund_exceeds_payment
      else Inr p)"

definition process :: "date \<Rightarrow> payment \<Rightarrow> object_id \<Rightarrow> error + payment" where
  "process now p processedBy =
     payment_save (p\<lparr>pay_status := Completed,
                     processing_info_processed_at := Some now,
                     processing_info_processed_by := Some processedBy\<rparr>)"

definition fail :: "payment \<Rightarrow> string \<Rightarrow> error + payment" where
  "fail p reason = payment_save (p\<lparr>pay_status := Failed, notes_internal := Some reason\<rparr>)"

definition payment_cancel :: "payment \<Rightarrow> error + payment" where
  "payment_cancel p = payment_save (p\<lparr>pay_status := Payment_cancelled\<rparr>)"


definition allocateToInvoice :: "date \<Rightarrow> payment \<Rightarrow> object_id \<Rightarrow> number \<Rightarrow> error + payment" where
  "allocateToInvoice now p invoiceId amount =
     payment_save (p\<lparr>allocation := allocation p @
        [\<lparr>alloc_invoice_id = invoiceId, alloc_amount = amount, alloc_allocated_at = now\<rparr>]\<rparr>)"




section \<open>The billing store (subscription and billing migration)\<close>

text \<open>
  The tables the subscription service reads and writes, each a list of rows in insertion
  order. Generated keys (\<open>uuid_generate_v4()\<close>) are passed to the operations as \<open>uuid\<close>,
  \<open>CURRENT_TIMESTAMP\<close> as \<open>now\<close>. Invoice and payment numbers are kept as the number
  behind the \<open>INV\<close> and \<open>PAY\<close> prefix. \<open>balance_amount\<close> and \<open>net_amount\<close> are generated
  columns, so they are functions of the row.
\<close>

datatype json = JNull | JNumber number | JString string

record subscription_plan =
  plan_id :: string
  plan_name :: string
  plan_slug :: string
  plan_price :: number
  plan_currency :: string
  plan_features :: "string list"
  plan_limits :: "(string \<times> int) list"
  plan_is_active :: bool
  plan_trial_days :: int

datatype billing_cycle = Monthly | Yearly

text \<open>
  A Date built by the service: either from a millisecond count (\<open>new Date(ms)\<close>) or from
  local calendar fields (\<open>new Date(year, monthIndex, day)\<close>, local midnight, fields not
  normalised). \<open>clock\<close> is what \<open>new Date()\<close> answers to the four getters the service calls.
\<close>

datatype js_date = Instant int | Local_date int int int

record clock =
  getTime :: int
  getFullYear :: int
  getMonth :: int
  getDate :: int

record tenant_subscription =
  sub_id :: string
  sub_tenant_id :: string
  sub_plan_id :: string
  sub_status :: string
  sub_current_period_start :: js_date
  sub_current_period_end :: js_date
  sub_trial_end :: "js_date option"
  sub_cancelled_at :: "js_date option"
  sub_cancel_reason :: "string option"
  sub_billing_cycle :: billing_cycle
  sub_price :: number
  sub_currency :: string
  sub_auto_renew :: bool
  sub_next_billing_at :: "js_date option"

record invoice_line_item =
  line_id :: string
  line_description :: string
  line_quantity :: number
  line_unitPrice :: number
  line_amount :: number

record invoice_row =
  i_id :: string
  i_tenant_id :: string
  i_customer_id :: "string option"
  i_subscription_id :: "string option"
  i_invoice_number :: nat
  i_status :: string
  i_currency :: string
  i_subtotal :: number
  i_tax_amount :: number
  i_discount_amount :: number
  i_total_amount :: number
  i_paid_amount :: number
  i_due_date :: date
  i_line_items :: "invoice_line_item list"
  i_created_by :: string
  i_created_at :: date
  i_deleted_at :: "date option"

definition balance_amount :: "invoice_row \<Rightarrow> number" where
  "balance_amount i = i_total_amount i - i_paid_amount i"

record payment_row =
  p_id :: string
  p_tenant_id :: string
  p_invoice_id :: "string option"
  p_customer_id :: "string option"
  p_subscription_id :: "string option"
  p_payment_number :: nat
  p_payment_method_id :: "string option"
  p_payment_status :: string
  p_amount :: number
  p_currency :: string
  p_fee :: number
  p_description :: "string option"
  p_refund_amount :: number
  p_processed_by :: string
  p_created_at :: date
  p_deleted_at :: "date option"

definition net_amount :: "payment_row \<Rightarrow> number" where
  "net_amount p = p_amount p - p_fee p"

record usage_metric =
  u_tenant_id :: string
  u_subscription_id :: "string option"
  u_metric_type :: string
  u_metric_value :: int
  u_metric_unit :: string
  u_period_start :: date
  u_period_end :: date

record billing_event =
  e_tenant_id :: string
  e_event_type :: string
  e_event_data :: "(string \<times> json) list"
  e_processed :: bool

record store =
  subscription_plans :: "subscription_plan list"
  tenant_subscriptions :: "tenant_subscription list"
  invoices :: "invoice_row list"
  payments :: "payment_row list"
  usage_metrics :: "usage_metric list"
  billing_events :: "billing_event list"

subsection \<open>Constraints checked by the store\<close>

text \<open>
  The constraints of the migration that depend only on these tables: the two amount
  checks, the period check, the foreign key from a payment to its invoice and the unique
  key on a subscription's tenant. A statement that violates one is rejected as a whole.
  The checks against \<open>current_tenant_id()\<close>, the keys into \<open>tenants\<close> and \<open>users\<close> and the
  rounding of DECIMAL(12, 2) are outside the model.
\<close>

definition invoices_amount_check :: "invoice_row \<Rightarrow> bool" where
  "invoices_amount_check i \<longleftrightarrow>
     i_total_amount i \<ge> 0 \<and> i_paid_amount i \<ge> 0 \<and> i_paid_amount i \<le> i_total_amount i"


definition usage_metrics_period_check :: "usage_metric \<Rightarrow> bool" where
  "usage_metrics_period_check u \<longleftrightarrow> u_period_end u > u_period_start u"




text \<open>\<open>UPDATE invoices SET paid_amount = paid_amount + $1 WHERE id = $2\<close>\<close>

definition add_paid :: "number \<Rightarrow> string \<Rightarrow> invoice_row \<Rightarrow> invoice_row" where
  "add_paid amount invoiceId i =
     (if i_id i = invoiceId then i\<lparr>i_paid_amount := i_paid_amount i + amount\<rparr> else i)"

definition update_invoice_paid_amount :: "store \<Rightarrow> number \<Rightarrow> string \<Rightarrow> error + store" where
  "update_invoice_paid_amount st amount invoiceId =
     (if list_all invoices_amount_check
           (map (add_paid amount invoiceId) (filter (\<lambda>i. i_id i = invoiceId) (invoices st)))
      then Inr (st\<lparr>invoices := map (add_paid amount invoiceId) (invoices st)\<rparr>)
      else Inl (DatabaseError ''invoices_amount_check''))"

definition insert_usage_metric :: "store \<Rightarrow> usage_metric \<Rightarrow> error + store" where
  "insert_usage_metric st u =
     (if usage_metrics_period_check u then Inr (st\<lparr>usage_metrics := usage_metrics st @ [u]\<rparr>)
      else Inl (DatabaseError ''usage_metrics_period_check''))"

definition insert_subscription :: "store \<Rightarrow> tenant_subscription \<Rightarrow> error + store" where
  "insert_subscription st ts =
     (if sub_tenant_id ts \<in> set (map sub_tenant_id (tenant_subscriptions st))
      then Inl (DatabaseError ''tenant_subscriptions_tenant_id_key'')
      else Inr (st\<lparr>tenant_subscriptions := tenant_subscriptions st @ [ts]\<rparr>))"

section \<open>The subscription service (services/subscription.service.ts)\<close>

definition createBillingEvent :: "store \<Rightarrow> string \<Rightarrow> string \<Rightarrow> (string \<times> json) list \<Rightarrow> store" where
  "createBillingEvent st tenantId eventType eventData =
     st\<lparr>billing_events := billing_events st @
          [\<lparr>e_tenant_id = tenantId, e_event_type = eventType,
            e_event_data = eventData, e_processed = False\<rparr>]\<rparr>"

text \<open>\<open>JSON.stringify\<close> leaves out a key whose value is \<open>undefined\<close>.\<close>

definition json_field :: "string \<Rightarrow> json option \<Rightarrow> (string \<times> json) list" where
  "json_field k v = (case v of None \<Rightarrow> [] | Some x \<Rightarrow> [(k, x)])"

subsection \<open>Plans and subscriptions\<close>

definition getPlanById :: "store \<Rightarrow> string \<Rightarrow> subscription_plan option" where
  "getPlanById st planId = find (\<lambda>sp. plan_id sp = planId) (subscription_plans st)"

text \<open>The join of a tenant's subscription with its plan; the first row, or null.\<close>

definition getTenantSubscription ::
  "store \<Rightarrow> string \<Rightarrow> (tenant_subscription \<times> subscription_plan) option"
where
  "getTenantSubscription st tenantId =
     (case concat (map (\<lambda>ts. map (\<lambda>sp. (ts, sp))
                               (filter (\<lambda>sp. sub_plan_id ts = plan_id sp) (subscription_plans st)))
                       (filter (\<lambda>ts. sub_tenant_id ts = tenantId) (tenant_subscriptions st))) of
        [] \<Rightarrow> None
      | row # _ \<Rightarrow> Some row)"

record subscription_data =
  sd_tenantId :: string
  sd_planId :: string
  sd_billingCycle :: billing_cycle
  sd_trialDays :: "int option"

definition billing_cycle_name :: "billing_cycle \<Rightarrow> string" where
  "billing_cycle_name c = (case c of Monthly \<Rightarrow> ''monthly'' | Yearly \<Rightarrow> ''yearly'')"

definition createSubscription ::
  "store \<Rightarrow> clock \<Rightarrow> string \<Rightarrow> subscription_data \<Rightarrow> store \<times> (error + tenant_subscription)"
where
  "createSubscription st now uuid subscriptionData =
     (case getPlanById st (sd_planId subscriptionData) of
        None \<Rightarrow> (st, Inl (ApiError ''Plan not found'' 404))
      | Some plan \<Rightarrow>
         (let trialEnd =
                (case sd_trialDays subscriptionData of
                   None \<Rightarrow> None
                 | Some trialDays \<Rightarrow>
                     if trialDays \<noteq> 0
                     then Some (Instant (getTime now + trialDays * 24 * 60 * 60 * 1000))
                     else None);
              currentPeriodEnd =
                (if sd_billingCycle subscriptionData = Yearly
                 then Local_date (getFullYear now + 1) (getMonth now) (getDate now)
                 else Local_date (getFullYear now) (getMonth now + 1) (getDate now));
              row = \<lparr>sub_id = uuid,
                     sub_tenant_id = sd_tenantId subscriptionData,
                     sub_plan_id = sd_planId subscriptionData,
                     sub_status = (if trialEnd \<noteq> None then ''trial'' else ''active''),
                     sub_current_period_start = Instant (getTime now),
                     sub_current_period_end =
                       (case trialEnd of Some t \<Rightarrow> t | None \<Rightarrow> Instant (getTime now)),
                     sub_trial_end = trialEnd,
                     sub_cancelled_at = None,
                     sub_cancel_reason = None,
                     sub_billing_cycle = sd_billingCycle subscriptionData,
                     sub_price = plan_price plan,
                     sub_currency = plan_currency plan,
                     sub_auto_renew = True,
                     sub_next_billing_at = Some currentPeriodEnd\<rparr>
          in (case insert_subscription st row of
               Inl e \<Rightarrow> (st, Inl e)
             | Inr st1 \<Rightarrow>
                 (createBillingEvent st1 (sd_tenantId subscriptionData) ''subscription.created''
                    ([(''subscriptionId'', JString uuid),
                      (''planId'', JString (sd_planId subscriptionData)),
                      (''billingCycle'', JString (billing_cycle_name (sd_billingCycle subscriptionData)))]
                     @ json_field ''trialDays''
                         (map_option (\<lambda>n. JNumber (of_int n)) (sd_trialDays subscriptionData))),
                  Inr row))))"

subsection \<open>Invoices\<close>


record list_params =
  lp_page :: "nat option"
  lp_limit :: "nat option"
  lp_status :: "string option"
  lp_dateFrom :: "date option"
  lp_dateTo :: "date option"

text \<open>
  \<open>params.x || d\<close> and \<open>if (params.x)\<close>: zero and the empty string count as absent.
\<close>

definition or_default :: "nat option \<Rightarrow> nat \<Rightarrow> nat" where
  "or_default v d = (case v of None \<Rightarrow> d | Some n \<Rightarrow> if n = 0 then d else n)"

definition given :: "string option \<Rightarrow> bool" where
  "given v \<longleftrightarrow> v \<noteq> None \<and> v \<noteq> Some []"

text \<open>
  The rows selected by the page query of \<open>getInvoices\<close>: the tenant's invoices that are
  not deleted and pass the filters of \<open>params\<close>, newest first, cut to the page asked for.
  The count query and the page arithmetic of the answer are not modelled.
\<close>

definition getInvoices_rows :: "store \<Rightarrow> string \<Rightarrow> list_params \<Rightarrow> invoice_row list" where
  "getInvoices_rows st tenantId params =
     (let selected = filter (\<lambda>i.
            i_tenant_id i = tenantId \<and> i_deleted_at i = None \<and>
            (if given (lp_status params) then Some (i_status i) = lp_status params else True) \<and>
            (case lp_dateFrom params of None \<Rightarrow> True | Some d \<Rightarrow> i_created_at i \<ge> d) \<and>
            (case lp_dateTo params of None \<Rightarrow> True | Some d \<Rightarrow> i_created_at i \<le> d))
            (invoices st);
          ordered = rev (sort_key i_created_at selected);
          page = or_default (lp_page params) 1;
          limit = or_default (lp_limit params) 10;
          offset = (page - 1) * limit
      in take limit (drop offset ordered))"




subsection \<open>Payments\<close>

record payment_data =
  pd_tenantId :: string
  pd_invoiceId :: "string option"
  pd_customerId :: "string option"
  pd_subscriptionId :: "string option"
  pd_amount :: number
  pd_currency :: "string option"
  pd_description :: "string option"
  pd_paymentMethodId :: "string option"
  pd_processedBy :: string



subsection \<open>Usage metrics\<close>

record metric_data =
  md_tenantId :: string
  md_subscriptionId :: "string option"
  md_metricType :: string
  md_metricValue :: int
  md_metricUnit :: string
  md_periodStart :: date
  md_periodEnd :: date

definition checkUsageLimits :: "store \<Rightarrow> string \<Rightarrow> string \<Rightarrow> int \<Rightarrow> store" where
  "checkUsageLimits st tenantId metricType currentValue =
     (case getTenantSubscription st tenantId of
        None \<Rightarrow> st
      | Some (subscription, plan) \<Rightarrow>
          (case map_of (plan_limits plan) metricType of
             None \<Rightarrow> st
           | Some limit \<Rightarrow>
               if limit \<noteq> 0 \<and> limit > 0 \<and> currentValue > limit
               then createBillingEvent st tenantId ''usage_limit_exceeded''
                      [(''metricType'', JString metricType),
                       (''currentValue'', JNumber (of_int currentValue)),
                       (''limit'', JNumber (of_int limit)),
                       (''plan'', JString (plan_name plan))]
               else st))"

definition usage_values :: "metric_data \<Rightarrow> usage_metric" where
  "usage_values metricData =
     \<lparr>u_tenant_id = md_tenantId metricData,
      u_subscription_id = md_subscriptionId metricData,
      u_metric_type = md_metricType metricData,
      u_metric_value = md_metricValue metricData,
      u_metric_unit = md_metricUnit metricData,
      u_period_start = md_periodStart metricData,
      u_period_end = md_periodEnd metricData\<rparr>"

definition recordUsageMetric :: "store \<Rightarrow> metric_data \<Rightarrow> store \<times> (error + unit)" where
  "recordUsageMetric st metricData =
     (case insert_usage_metric st (usage_values metricData) of
        Inl e \<Rightarrow> (st, Inl e)
      | Inr st1 \<Rightarrow>
          (checkUsageLimits st1 (md_tenantId metricData) (md_metricType metricData)
             (md_metricValue metricData),
           Inr ()))"

text \<open>
  The limit \<open>checkUsageLimits\<close> reads: \<open>subscription.plan.limits[metricType]\<close> of the
  tenant's subscription, if there is one.
\<close>

definition plan_limit :: "store \<Rightarrow> string \<Rightarrow> string \<Rightarrow> int option" where
  "plan_limit st tenantId metricType =
     (case getTenantSubscription st tenantId of
        None \<Rightarrow> None
      | Some (subscription, plan) \<Rightarrow> map_of (plan_limits plan) metricType)"

text \<open>The events of one type recorded for one tenant.\<close>

definition events_of :: "store \<Rightarrow> string \<Rightarrow> string \<Rightarrow> billing_event list" where
  "events_of st tenantId eventType =
     filter (\<lambda>e. e_tenant_id e = tenantId \<and> e_event_type e = eventType) (billing_events st)"

text \<open>Recording the same sample \<open>n\<close> times in a row, stopping at the first error.\<close>

fun record_samples :: "nat \<Rightarrow> store \<Rightarrow> metric_data \<Rightarrow> store \<times> (error + unit)" where
  "record_samples 0 st metricData = (st, Inr ())"
| "record_samples (Suc n) st metricData =
     (case recordUsageMetric st metricData of
        (st1, Inl e) \<Rightarrow> (st1, Inl e)
      | (st1, Inr _) \<Rightarrow> record_samples n st1 metricData)"

section \<open>Scenarios\<close>

text \<open>
  The invoice of the specification's scenario B as it is stored after its first save: one
  line of quantity 2 at 50.00 with 10% tax, due 30 days after issue.
\<close>

definition day :: int where
  "day = 1000 * 60 * 60 * 24"

definition consultation :: invoice_item where
  "consultation =
     \<lparr>item_id = ''item-1'', item_quantity = 2, item_unit_price = 50, item_discount = 0,
      item_tax_rate = 1 / 10, item_total = 100\<rparr>"

definition discounted_item :: invoice_item where
  "discounted_item =
     \<lparr>item_id = ''item-2'', item_quantity = 1, item_unit_price = 100, item_discount = 10,
      item_tax_rate = 0, item_total = 90\<rparr>"

definition invoice_110 :: invoice where
  "invoice_110 =
     \<lparr>inv_id = ''invoice-1'', inv_tenant_id = ''tenant-a'',
      invoice_info_issue_date = Some 0, invoice_info_due_date = Some (30 * day),
      items = [consultation],
      totals_subtotal = 100, totals_discount_amount = 0, totals_tax_amount = 10,
      totals_total_amount = 110, totals_paid_amount = 0, totals_balance_due = 110,
      inv_status = Draft, payment_terms_due_days = 30,
      sent_at = None, paid_at = None, inv_deleted_at = None\<rparr>"

definition invoice_110_sent :: invoice where
  "invoice_110_sent = invoice_110\<lparr>inv_status := Sent, sent_at := Some day\<rparr>"



text \<open>
  A billing store with the Basic plan of the migration (500 patients), tenant T subscribed
  to it, and one open invoice of 110.00 that belongs to tenant B.
\<close>

definition basic_plan :: subscription_plan where
  "basic_plan =
     \<lparr>plan_id = ''plan-basic'', plan_name = ''Basic'', plan_slug = ''basic'', plan_price = 99,
      plan_currency = ''USD'',
      plan_features = [''appointments'', ''patients'', ''doctors'', ''basic_reports''],
      plan_limits = [(''users'', 5), (''patients'', 500), (''appointments_per_month'', 1000),
                     (''storage_gb'', 10)],
      plan_is_active = True, plan_trial_days = 14\<rparr>"

definition subscription_t :: tenant_subscription where
  "subscription_t =
     \<lparr>sub_id = ''subscription-t'', sub_tenant_id = ''tenant-t'', sub_plan_id = ''plan-basic'',
      sub_status = ''active'',
      sub_current_period_start = Instant 0, sub_current_period_end = Instant 0,
      sub_trial_end = None, sub_cancelled_at = None, sub_cancel_reason = None,
      sub_billing_cycle = Monthly, sub_price = 99, sub_currency = ''USD'',
      sub_auto_renew = True, sub_next_billing_at = Some (Local_date 1970 1 1)\<rparr>"

definition invoice_b :: invoice_row where
  "invoice_b =
     \<lparr>i_id = ''invoice-b1'', i_tenant_id = ''tenant-b'', i_customer_id = None,
      i_subscription_id = None, i_invoice_number = 1, i_status = ''open'', i_currency = ''USD'',
      i_subtotal = 100, i_tax_amount = 10, i_discount_amount = 0, i_total_amount = 110,
      i_paid_amount = 0, i_due_date = 30 * day, i_line_items = [], i_created_by = ''user-b'',
      i_created_at = 0, i_deleted_at = None\<rparr>"

definition billing_store :: store where
  "billing_store =
     \<lparr>subscription_plans = [basic_plan], tenant_subscriptions = [subscription_t],
      invoices = [invoice_b], payments = [], usage_metrics = [], billing_events = []\<rparr>"

definition no_params :: list_params where
  "no_params =
     \<lparr>lp_page = None, lp_limit = None, lp_status = None, lp_dateFrom = None, lp_dateTo = None\<rparr>"

text \<open>A payment of the given amount by tenant B on its invoice.\<close>

definition payment_on_invoice_b :: "number \<Rightarrow> payment_data" where
  "payment_on_invoice_b amount =
     \<lparr>pd_tenantId = ''tenant-b'', pd_invoiceId = Some ''invoice-b1'', pd_customerId = None,
      pd_subscriptionId = None, pd_amount = amount, pd_currency = None, pd_description = None,
      pd_paymentMethodId = None, pd_processedBy = ''user-b''\<rparr>"

definition pending_payment_b :: "number \<Rightarrow> payment_row" where
  "pending_payment_b amount =
     \<lparr>p_id = ''payment-b1'', p_tenant_id = ''tenant-b'', p_invoice_id = Some ''invoice-b1'',
      p_customer_id = None, p_subscription_id = None, p_payment_number = 1,
      p_payment_method_id = None, p_payment_status = ''pending'', p_amount = amount,
      p_currency = ''USD'', p_fee = 0, p_description = None, p_refund_amount = 0,
      p_processed_by = ''user-b'', p_created_at = day, p_deleted_at = None\<rparr>"

text \<open>A usage sample of tenant T for the metric \<open>patients\<close>, in one thirty-day period.\<close>

definition patients_sample :: "int \<Rightarrow> metric_data" where
  "patients_sample v =
     \<lparr>md_tenantId = ''tenant-t'', md_subscriptionId = Some ''subscription-t'',
      md_metricType = ''patients'', md_metricValue = v, md_metricUnit = ''count'',
      md_periodStart = 0, md_periodEnd = 30 * day\<rparr>"

definition limit_exceeded_event :: "int \<Rightarrow> billing_event" where
  "limit_exceeded_event v =
     \<lparr>e_tenant_id = ''tenant-t'', e_event_type = ''usage_limit_exceeded'',
      e_event_data = [(''metricType'', JString ''patients''), (''currentValue'', JNumber (of_int v)),
                      (''limit'', JNumber 500), (''plan'', JString ''Basic'')],
      e_processed = False\<rparr>"

text \<open>A new tenant subscribing on 15 January 2026, 10:00 UTC.\<close>

definition clock_jan15 :: clock where
  "clock_jan15 = \<lparr>getTime = 1768471200000, getFullYear = 2026, getMonth = 0, getDate = 15\<rparr>"

definition monthly_on_basic :: subscription_data where
  "monthly_on_basic =
     \<lparr>sd_tenantId = ''tenant-n'', sd_planId = ''plan-basic'', sd_billingCycle = Monthly,
      sd_trialDays = None\<rparr>"

section \<open>Properties of the Invoice model\<close>

lemmas scenario_defs =
  day_def consultation_def discounted_item_def invoice_110_def invoice_110_sent_def

lemmas invoice_defs =
  save_def pre_save_def validate_invoice_def validate_item_def forEach_item_def itemTotal_def
  set_due_date_def update_status_def is_overdue_def days_overdue_def

lemma fold_forEach_item:
  "fold forEach_item its (seen, s, t) =
     (seen @ map (\<lambda>item. item\<lparr>item_total := itemTotal item\<rparr>) its,
      s + sum_list (map itemTotal its),
      t + sum_list (map (\<lambda>item. itemTotal item * item_tax_rate item) its))"
  by (induction its arbitrary: seen s t) (simp_all add: forEach_item_def algebra_simps)

lemma fold_discount:
  "fold (\<lambda>item acc. acc + item_discount item) its a = a + sum_list (map item_discount its)"
  by (induction its arbitrary: a) (simp_all add: algebra_simps)

lemma update_status_fields [simp]:
  "items (update_status now doc) = items doc"
  "totals_subtotal (update_status now doc) = totals_subtotal doc"
  "totals_discount_amount (update_status now doc) = totals_discount_amount doc"
  "totals_tax_amount (update_status now doc) = totals_tax_amount doc"
  "totals_total_amount (update_status now doc) = totals_total_amount doc"
  "totals_paid_amount (update_status now doc) = totals_paid_amount doc"
  "totals_balance_due (update_status now doc) = totals_balance_due doc"
  "invoice_info_due_date (update_status now doc) = invoice_info_due_date doc"
  by (simp_all add: update_status_def)

lemma set_due_date_fields [simp]:
  "items (set_due_date doc) = items doc"
  "totals_subtotal (set_due_date doc) = totals_subtotal doc"
  "totals_discount_amount (set_due_date doc) = totals_discount_amount doc"
  "totals_tax_amount (set_due_date doc) = totals_tax_amount doc"
  "totals_total_amount (set_due_date doc) = totals_total_amount doc"
  "totals_paid_amount (set_due_date doc) = totals_paid_amount doc"
  "totals_balance_due (set_due_date doc) = totals_balance_due doc"
  "inv_status (set_due_date doc) = inv_status doc"
  "paid_at (set_due_date doc) = paid_at doc"
  by (simp_all add: set_due_date_def split: option.splits)

lemma pre_save_fields:
  "items (pre_save now doc) = map (\<lambda>item. item\<lparr>item_total := itemTotal item\<rparr>) (items doc)"
  "totals_subtotal (pre_save now doc) = sum_list (map itemTotal (items doc))"
  "totals_discount_amount (pre_save now doc) = sum_list (map item_discount (items doc))"
  "totals_tax_amount (pre_save now doc) =
     sum_list (map (\<lambda>item. itemTotal item * item_tax_rate item) (items doc))"
  "totals_total_amount (pre_save now doc) =
     totals_subtotal (pre_save now doc) + totals_tax_amount (pre_save now doc)"
  "totals_paid_amount (pre_save now doc) = totals_paid_amount doc"
  "totals_balance_due (pre_save now doc) =
     totals_total_amount (pre_save now doc) - totals_paid_amount (pre_save now doc)"
  by (simp_all add: pre_save_def fold_forEach_item fold_discount Let_def comp_def)

text \<open>Every instance method ends in \<open>save\<close>, so what it returns left the hook.\<close>

lemma invoice_method_save:
  "invoice_method now doc call = Inr doc' \<Longrightarrow> \<exists>d. doc' = pre_save now d"
  by (cases call) (auto simp: save_def addItem_def removeItem_def updateItem_def send_def
      addPayment_def cancel_def writeOff_def softDelete_def restore_def split: if_splits)







subsection \<open>Totals\<close>




subsection \<open>Balance\<close>

text \<open>The stored balance is total minus paid after every saving call.\<close>

lemma balance_after_call:
  assumes "invoice_method now doc call = Inr doc'"
  shows "totals_balance_due doc' = totals_total_amount doc' - totals_paid_amount doc'"
proof -
  from assms obtain d where "doc' = pre_save now d"
    using invoice_method_save by blast
  then show ?thesis by (simp add: pre_save_fields(7))
qed

text \<open>
  C3 at the failing input: a payment of 150.00 on the valid scenario invoice of 110.00 is
  accepted and leaves a stored balance of -40.00.
\<close>

theorem overpayment_negative_balance:
  "validate_invoice invoice_110
   \<and> addPayment day invoice_110 150 =
       Inr (invoice_110\<lparr>totals_paid_amount := 150, totals_balance_due := - 40,
                        inv_status := Paid, paid_at := Some day\<rparr>)
   \<and> (- 40 :: number) = 110 - 150 \<and> (- 40 :: number) < 0"
  by (simp add: addPayment_def invoice_defs scenario_defs)

subsection \<open>Status\<close>

lemma ceil_days_pos: "0 < - ((- x) div (1000 * 60 * 60 * 24 :: int)) \<longleftrightarrow> 0 < x"
proof -
  have "(- x) div (86400000 :: int) < 0 \<longleftrightarrow> - x < 0"
    by (rule pos_imp_zdiv_neg_iff) simp
  then show ?thesis by simp
qed

lemma is_overdue_iff:
  "is_overdue now doc \<and> inv_status doc \<noteq> Cancelled \<longleftrightarrow>
     (case invoice_info_due_date doc of None \<Rightarrow> False | Some d \<Rightarrow> d < now)
     \<and> inv_status doc \<noteq> Paid \<and> inv_status doc \<noteq> Cancelled"
  unfolding is_overdue_def days_overdue_def
  by (auto simp: ceil_days_pos split: option.splits)

lemma update_status_status:
  "inv_status (update_status now doc) =
     (if totals_balance_due doc \<le> 0 \<and> totals_paid_amount doc > 0 then Paid
      else if totals_paid_amount doc > 0 \<and> totals_balance_due doc > 0 then Partially_paid
      else if (case invoice_info_due_date doc of None \<Rightarrow> False | Some d \<Rightarrow> d < now)
              \<and> inv_status doc \<noteq> Paid \<and> inv_status doc \<noteq> Cancelled then Overdue
      else inv_status doc)"
proof -
  have "(is_overdue now doc \<and> inv_status doc \<noteq> Cancelled) =
     ((case invoice_info_due_date doc of None \<Rightarrow> False | Some d \<Rightarrow> d < now)
      \<and> inv_status doc \<noteq> Paid \<and> inv_status doc \<noteq> Cancelled)"
    by (rule is_overdue_iff)
  then show ?thesis
    unfolding update_status_def by (auto split: if_splits)
qed

lemma update_status_paid_at:
  "paid_at (update_status now doc) =
     (if totals_balance_due doc \<le> 0 \<and> totals_paid_amount doc > 0
      then (case paid_at doc of None \<Rightarrow> Some now | Some t \<Rightarrow> Some t)
      else paid_at doc)"
  by (simp add: update_status_def)

lemma pre_save_unfold:
  "pre_save now doc = update_status now (set_due_date
     (doc\<lparr>items := map (\<lambda>item. item\<lparr>item_total := itemTotal item\<rparr>) (items doc),
          totals_subtotal := sum_list (map itemTotal (items doc)),
          totals_discount_amount := sum_list (map item_discount (items doc)),
          totals_tax_amount := sum_list (map (\<lambda>item. itemTotal item * item_tax_rate item) (items doc)),
          totals_total_amount := sum_list (map itemTotal (items doc))
             + sum_list (map (\<lambda>item. itemTotal item * item_tax_rate item) (items doc)),
          totals_balance_due := sum_list (map itemTotal (items doc))
             + sum_list (map (\<lambda>item. itemTotal item * item_tax_rate item) (items doc))
             - totals_paid_amount doc\<rparr>))"
  by (simp add: pre_save_def fold_forEach_item fold_discount Let_def comp_def)

lemma pre_save_status:
  "inv_status (pre_save now doc) =
     (if totals_balance_due (pre_save now doc) \<le> 0 \<and> totals_paid_amount doc > 0 then Paid
      else if totals_paid_amount doc > 0 \<and> totals_balance_due (pre_save now doc) > 0
        then Partially_paid
      else if (case invoice_info_due_date (pre_save now doc) of None \<Rightarrow> False | Some d \<Rightarrow> d < now)
              \<and> inv_status doc \<noteq> Paid \<and> inv_status doc \<noteq> Cancelled then Overdue
      else inv_status doc)"
  unfolding pre_save_unfold update_status_status by simp

lemma pre_save_paid_at:
  "paid_at (pre_save now doc) =
     (if totals_balance_due (pre_save now doc) \<le> 0 \<and> totals_paid_amount doc > 0
      then (case paid_at doc of None \<Rightarrow> Some now | Some t \<Rightarrow> Some t)
      else paid_at doc)"
  unfolding pre_save_unfold update_status_paid_at by simp


lemma addPayment_Inr:
  "addPayment now doc amount = Inr doc' \<Longrightarrow>
     doc' = pre_save now (doc\<lparr>totals_paid_amount := totals_paid_amount doc + amount\<rparr>)
     \<and> totals_paid_amount doc + amount \<ge> 0"
  by (auto simp: addPayment_def save_def validate_invoice_def split: if_splits)

text \<open>
  C4, as the code has it. After a payment is applied with \<open>addPayment\<close>, the status is
  derived by the first rule that matches: paid when the balance is at most zero and the
  paid amount is positive, with \<open>paid_at\<close> stamped only if it was not set; partially paid
  when the paid amount is positive and below the total; overdue when nothing is paid, the
  balance is positive, the due date has passed and the status was neither paid nor
  cancelled. Payments of 40.00 and then 70.00 on the draft invoice of 110.00 give partially
  paid and then paid, with 110.00 paid.
\<close>

theorem status_after_payment:
  assumes "addPayment now doc amount = Inr doc'"
  shows "(totals_balance_due doc' \<le> 0 \<and> totals_paid_amount doc' > 0 \<longrightarrow>
            inv_status doc' = Paid
            \<and> paid_at doc' = (case paid_at doc of None \<Rightarrow> Some now | Some t \<Rightarrow> Some t))
       \<and> (0 < totals_paid_amount doc' \<and> totals_paid_amount doc' < totals_total_amount doc' \<longrightarrow>
            inv_status doc' = Partially_paid \<and> paid_at doc' = paid_at doc)
       \<and> (totals_paid_amount doc' = 0 \<and> totals_balance_due doc' > 0
           \<and> (\<exists>d. invoice_info_due_date doc' = Some d \<and> d < now)
           \<and> inv_status doc \<noteq> Paid \<and> inv_status doc \<noteq> Cancelled \<longrightarrow>
            inv_status doc' = Overdue)
       \<and> addPayment day invoice_110 40 =
            Inr (invoice_110\<lparr>totals_paid_amount := 40, totals_balance_due := 70,
                             inv_status := Partially_paid\<rparr>)
       \<and> addPayment (2 * day)
            (invoice_110\<lparr>totals_paid_amount := 40, totals_balance_due := 70,
                         inv_status := Partially_paid\<rparr>) 70 =
            Inr (invoice_110\<lparr>totals_paid_amount := 110, totals_balance_due := 0,
                             inv_status := Paid, paid_at := Some (2 * day)\<rparr>)"
proof -
  let ?d = "doc\<lparr>totals_paid_amount := totals_paid_amount doc + amount\<rparr>"
  from assms have d: "doc' = pre_save now ?d"
    using addPayment_Inr by blast
  have paid: "totals_paid_amount doc' = totals_paid_amount ?d"
    unfolding d by (rule pre_save_fields(6))
  have bal: "totals_balance_due doc' = totals_total_amount doc' - totals_paid_amount doc'"
    unfolding d by (rule pre_save_fields(7))
  have st: "inv_status doc' =
     (if totals_balance_due doc' \<le> 0 \<and> totals_paid_amount doc' > 0 then Paid
      else if totals_paid_amount doc' > 0 \<and> totals_balance_due doc' > 0 then Partially_paid
      else if (case invoice_info_due_date doc' of None \<Rightarrow> False | Some d \<Rightarrow> d < now)
              \<and> inv_status doc \<noteq> Paid \<and> inv_status doc \<noteq> Cancelled then Overdue
      else inv_status doc)"
    using pre_save_status [of now ?d] unfolding d [symmetric] paid [symmetric] by simp
  have pa: "paid_at doc' =
     (if totals_balance_due doc' \<le> 0 \<and> totals_paid_amount doc' > 0
      then (case paid_at doc of None \<Rightarrow> Some now | Some t \<Rightarrow> Some t)
      else paid_at doc)"
    using pre_save_paid_at [of now ?d] unfolding d [symmetric] paid [symmetric] by simp
  have r1: "totals_balance_due doc' \<le> 0 \<and> totals_paid_amount doc' > 0 \<longrightarrow>
            inv_status doc' = Paid
            \<and> paid_at doc' = (case paid_at doc of None \<Rightarrow> Some now | Some t \<Rightarrow> Some t)"
    using st pa by simp
  have r2: "0 < totals_paid_amount doc' \<and> totals_paid_amount doc' < totals_total_amount doc' \<longrightarrow>
            inv_status doc' = Partially_paid \<and> paid_at doc' = paid_at doc"
    using st pa bal by auto
  have r3: "totals_paid_amount doc' = 0 \<and> totals_balance_due doc' > 0
           \<and> (\<exists>d. invoice_info_due_date doc' = Some d \<and> d < now)
           \<and> inv_status doc \<noteq> Paid \<and> inv_status doc \<noteq> Cancelled \<longrightarrow>
            inv_status doc' = Overdue"
    using st by auto
  have s1: "addPayment day invoice_110 40 =
            Inr (invoice_110\<lparr>totals_paid_amount := 40, totals_balance_due := 70,
                             inv_status := Partially_paid\<rparr>)"
    by (simp add: addPayment_def invoice_defs scenario_defs)
  have s2: "addPayment (2 * day)
            (invoice_110\<lparr>totals_paid_amount := 40, totals_balance_due := 70,
                         inv_status := Partially_paid\<rparr>) 70 =
            Inr (invoice_110\<lparr>totals_paid_amount := 110, totals_balance_due := 0,
                             inv_status := Paid, paid_at := Some (2 * day)\<rparr>)"
    by (simp add: addPayment_def invoice_defs scenario_defs)
  from r1 r2 r3 s1 s2 show ?thesis by blast
qed

text \<open>
  Witness for C4: the second and the first payment of the scenario, and an invoice that was
  sent, is ten days past its due date and has nothing paid.
\<close>

theorem status_after_payment_witness:
  "addPayment (2 * day)
      (invoice_110\<lparr>totals_paid_amount := 40, totals_balance_due := 70,
                   inv_status := Partially_paid\<rparr>) 70 =
      Inr (invoice_110\<lparr>totals_paid_amount := 110, totals_balance_due := 0,
                       inv_status := Paid, paid_at := Some (2 * day)\<rparr>)
   \<and> addPayment day invoice_110 40 =
      Inr (invoice_110\<lparr>totals_paid_amount := 40, totals_balance_due := 70,
                       inv_status := Partially_paid\<rparr>)
   \<and> addPayment (40 * day) invoice_110_sent 0 = Inr (invoice_110_sent\<lparr>inv_status := Overdue\<rparr>)
   \<and> inv_status invoice_110 = Draft"
proof -
  have c1: "addPayment (2 * day)
      (invoice_110\<lparr>totals_paid_amount := 40, totals_balance_due := 70,
                   inv_status := Partially_paid\<rparr>) 70 =
      Inr (invoice_110\<lparr>totals_paid_amount := 110, totals_balance_due := 0,
                       inv_status := Paid, paid_at := Some (2 * day)\<rparr>)"
    by (simp add: addPayment_def invoice_defs scenario_defs)
  have c2: "addPayment day invoice_110 40 =
      Inr (invoice_110\<lparr>totals_paid_amount := 40, totals_balance_due := 70,
                       inv_status := Partially_paid\<rparr>)"
    by (simp add: addPayment_def invoice_defs scenario_defs)
  have c3: "addPayment (40 * day) invoice_110_sent 0 = Inr (invoice_110_sent\<lparr>inv_status := Overdue\<rparr>)"
    by (simp add: addPayment_def invoice_defs scenario_defs)
  note t1 = status_after_payment [OF c1]
  note t2 = status_after_payment [OF c2]
  note t3 = status_after_payment [OF c3]
  from t1 t2 t3 c1 c2 c3 show ?thesis
    by (simp add: scenario_defs)
qed

text \<open>
  Counterexample to C4 as stated: a payment of 40.00 on the sent invoice of 110.00, ten days
  past its due date, leaves a balance of 70.00 and the status partially paid, not overdue.
\<close>

theorem partially_paid_not_overdue_counterexample:
  "addPayment (40 * day) invoice_110_sent 40 =
     Inr (invoice_110_sent\<lparr>totals_paid_amount := 40, totals_balance_due := 70,
                           inv_status := Partially_paid\<rparr>)
   \<and> (70 :: number) > 0
   \<and> invoice_info_due_date invoice_110_sent = Some (30 * day) \<and> 30 * day < 40 * day
   \<and> inv_status invoice_110_sent \<noteq> Paid \<and> inv_status invoice_110_sent \<noteq> Cancelled
   \<and> Partially_paid \<noteq> Overdue"
  by (simp add: addPayment_def invoice_defs scenario_defs)

section \<open>Properties of the Payment model\<close>





section \<open>Properties of the subscription service\<close>

lemmas store_defs =
  basic_plan_def subscription_t_def invoice_b_def billing_store_def no_params_def
  payment_on_invoice_b_def pending_payment_b_def day_def

subsection \<open>Reading invoices\<close>

text \<open>The list query selects rows of the tenant it is given only.\<close>

lemma getInvoices_rows_tenant_only:
  assumes "r \<in> set (getInvoices_rows st tenantId params)"
  shows "i_tenant_id r = tenantId \<and> i_deleted_at r = None"
proof -
  define selected where "selected = filter (\<lambda>i.
            i_tenant_id i = tenantId \<and> i_deleted_at i = None \<and>
            (if given (lp_status params) then Some (i_status i) = lp_status params else True) \<and>
            (case lp_dateFrom params of None \<Rightarrow> True | Some d \<Rightarrow> i_created_at i \<ge> d) \<and>
            (case lp_dateTo params of None \<Rightarrow> True | Some d \<Rightarrow> i_created_at i \<le> d))
            (invoices st)"
  from assms obtain n m where "r \<in> set (take n (drop m (rev (sort_key i_created_at selected))))"
    unfolding getInvoices_rows_def Let_def selected_def by blast
  then have "r \<in> set (drop m (rev (sort_key i_created_at selected)))"
    by (rule in_set_takeD)
  then have "r \<in> set (rev (sort_key i_created_at selected))"
    by (rule in_set_dropD)
  then have "r \<in> set selected"
    by simp
  then show ?thesis
    unfolding selected_def by simp
qed


subsection \<open>Recording payments\<close>



text \<open>
  In the billing store the amount check keeps the generated balance from going negative,
  and an accepted update of the paid amount keeps the check.
\<close>

lemma balance_amount_nonneg:
  "invoices_amount_check i \<Longrightarrow> balance_amount i \<ge> 0"
  by (simp add: invoices_amount_check_def balance_amount_def)

lemma update_invoice_paid_amount_keeps_check:
  assumes "update_invoice_paid_amount st amount invoiceId = Inr st'"
      and "list_all invoices_amount_check (invoices st)"
  shows "list_all invoices_amount_check (invoices st')"
proof -
  from assms(1) have
    upd: "list_all invoices_amount_check
            (map (add_paid amount invoiceId) (filter (\<lambda>i. i_id i = invoiceId) (invoices st)))"
    and st': "invoices st' = map (add_paid amount invoiceId) (invoices st)"
    by (auto simp: update_invoice_paid_amount_def split: if_splits)
  show ?thesis
    unfolding st' list_all_iff
  proof
    fix r assume "r \<in> set (map (add_paid amount invoiceId) (invoices st))"
    then obtain i where i: "i \<in> set (invoices st)" "r = add_paid amount invoiceId i"
      by auto
    show "invoices_amount_check r"
    proof (cases "i_id i = invoiceId")
      case True
      with i upd show ?thesis by (auto simp: list_all_iff)
    next
      case False
      with i assms(2) show ?thesis by (auto simp: list_all_iff add_paid_def)
    qed
  qed
qed








subsection \<open>Recording usage\<close>

lemmas usage_defs = recordUsageMetric_def usage_values_def insert_usage_metric_def
  usage_metrics_period_check_def checkUsageLimits_def plan_limit_def getTenantSubscription_def
  createBillingEvent_def events_of_def

lemma getTenantSubscription_cong:
  "subscription_plans st' = subscription_plans st \<Longrightarrow>
   tenant_subscriptions st' = tenant_subscriptions st \<Longrightarrow>
   getTenantSubscription st' tenantId = getTenantSubscription st tenantId"
  by (simp only: getTenantSubscription_def)

lemma plan_limit_cong:
  "subscription_plans st' = subscription_plans st \<Longrightarrow>
   tenant_subscriptions st' = tenant_subscriptions st \<Longrightarrow>
   plan_limit st' tenantId metricType = plan_limit st tenantId metricType"
  using getTenantSubscription_cong [of st' st tenantId] by (simp only: plan_limit_def)

text \<open>The events one call of \<open>checkUsageLimits\<close> appends.\<close>

lemma checkUsageLimits_eq:
  "checkUsageLimits st tenantId metricType currentValue =
     st\<lparr>billing_events := billing_events st @
          (case plan_limit st tenantId metricType of
             None \<Rightarrow> []
           | Some limit \<Rightarrow>
               if limit > 0 \<and> currentValue > limit
               then [\<lparr>e_tenant_id = tenantId, e_event_type = ''usage_limit_exceeded'',
                      e_event_data = [(''metricType'', JString metricType),
                                      (''currentValue'', JNumber (of_int currentValue)),
                                      (''limit'', JNumber (of_int limit)),
                                      (''plan'', JString (plan_name (snd (the (getTenantSubscription st tenantId)))))],
                      e_processed = False\<rparr>]
               else [])\<rparr>"
  by (auto simp: checkUsageLimits_def plan_limit_def createBillingEvent_def
      split: option.splits prod.splits)

lemma recordUsageMetric_eq:
  "recordUsageMetric st metricData =
     (if md_periodEnd metricData > md_periodStart metricData
      then (checkUsageLimits (st\<lparr>usage_metrics := usage_metrics st @ [usage_values metricData]\<rparr>)
              (md_tenantId metricData) (md_metricType metricData) (md_metricValue metricData),
            Inr ())
      else (st, Inl (DatabaseError ''usage_metrics_period_check'')))"
  by (simp add: recordUsageMetric_def insert_usage_metric_def usage_metrics_period_check_def
      usage_values_def)

lemma record_samples_below_limit:
  assumes "md_periodEnd metricData > md_periodStart metricData"
      and "plan_limit st (md_tenantId metricData) (md_metricType metricData) = Some limit"
      and "\<not> md_metricValue metricData > limit"
  shows "record_samples n st metricData =
           (st\<lparr>usage_metrics := usage_metrics st @ replicate n (usage_values metricData)\<rparr>, Inr ())"
  using assms
proof (induction n arbitrary: st)
  case 0
  then show ?case by simp
next
  case (Suc n)
  let ?st1 = "st\<lparr>usage_metrics := usage_metrics st @ [usage_values metricData]\<rparr>"
  have lim: "plan_limit ?st1 (md_tenantId metricData) (md_metricType metricData) = Some limit"
    using Suc.prems(2) plan_limit_cong [of ?st1 st] by simp
  have step: "recordUsageMetric st metricData = (?st1, Inr ())"
    using Suc.prems(1,3) lim by (simp add: recordUsageMetric_eq checkUsageLimits_eq)
  have "record_samples n ?st1 metricData =
          (?st1\<lparr>usage_metrics := usage_metrics ?st1 @ replicate n (usage_values metricData)\<rparr>, Inr ())"
    using Suc.IH [of ?st1] Suc.prems(1,3) lim by blast
  then show ?case
    using step by (simp add: replicate_app_Cons_same)
qed

text \<open>
  C7, as the code has it. A recorded sample is stored, and its own value, not the sum of
  the samples of the period, is compared with the limit of the tenant's plan: when the
  limit is positive and the value is above it the call appends one
  \<open>usage_limit_exceeded\<close> event, whatever was recorded or flagged before; otherwise it
  appends none. So 501 samples of value 1 against the limit of 500 are all stored and
  append no event.
\<close>

theorem usage_event_per_sample:
  assumes "recordUsageMetric st metricData = (st', Inr ())"
  shows "usage_metrics st' = usage_metrics st @ [usage_values metricData]
       \<and> ((\<exists>limit. plan_limit st (md_tenantId metricData) (md_metricType metricData) = Some limit
                    \<and> limit > 0 \<and> md_metricValue metricData > limit) \<longrightarrow>
            (\<exists>e. billing_events st' = billing_events st @ [e]
                 \<and> e_tenant_id e = md_tenantId metricData
                 \<and> e_event_type e = ''usage_limit_exceeded''
                 \<and> map_of (e_event_data e) ''currentValue''
                      = Some (JNumber (of_int (md_metricValue metricData)))))
       \<and> (\<not> (\<exists>limit. plan_limit st (md_tenantId metricData) (md_metricType metricData) = Some limit
                    \<and> limit > 0 \<and> md_metricValue metricData > limit) \<longrightarrow>
            billing_events st' = billing_events st)
       \<and> record_samples 501 billing_store (patients_sample 1) =
            (billing_store\<lparr>usage_metrics := replicate 501 (usage_values (patients_sample 1))\<rparr>,
             Inr ())"
proof -
  let ?st1 = "st\<lparr>usage_metrics := usage_metrics st @ [usage_values metricData]\<rparr>"
  let ?t = "md_tenantId metricData" and ?m = "md_metricType metricData"
  let ?v = "md_metricValue metricData"
  from assms have st': "st' = checkUsageLimits ?st1 ?t ?m ?v"
    by (simp add: recordUsageMetric_eq split: if_splits)
  have lim: "plan_limit ?st1 ?t ?m = plan_limit st ?t ?m"
    using plan_limit_cong [of ?st1 st] by simp
  have usage: "usage_metrics st' = usage_metrics st @ [usage_values metricData]"
    unfolding st' checkUsageLimits_eq by simp
  have above: "(\<exists>limit. plan_limit st ?t ?m = Some limit \<and> limit > 0 \<and> ?v > limit) \<longrightarrow>
            (\<exists>e. billing_events st' = billing_events st @ [e]
                 \<and> e_tenant_id e = ?t \<and> e_event_type e = ''usage_limit_exceeded''
                 \<and> map_of (e_event_data e) ''currentValue'' = Some (JNumber (of_int ?v)))"
    unfolding st' checkUsageLimits_eq lim by auto
  have below: "\<not> (\<exists>limit. plan_limit st ?t ?m = Some limit \<and> limit > 0 \<and> ?v > limit) \<longrightarrow>
            billing_events st' = billing_events st"
    unfolding st' checkUsageLimits_eq lim by (auto split: option.splits)
  have scenario: "record_samples 501 billing_store (patients_sample 1) =
            (billing_store\<lparr>usage_metrics := replicate 501 (usage_values (patients_sample 1))\<rparr>,
             Inr ())"
  proof -
    have "record_samples 501 billing_store (patients_sample 1) =
            (billing_store\<lparr>usage_metrics := usage_metrics billing_store
                @ replicate 501 (usage_values (patients_sample 1))\<rparr>, Inr ())"
      by (rule record_samples_below_limit [where limit = 500])
         (simp_all add: patients_sample_def day_def plan_limit_def getTenantSubscription_def
            billing_store_def basic_plan_def subscription_t_def)
    then show ?thesis by (simp add: billing_store_def)
  qed
  from usage above below scenario show ?thesis by blast
qed

text \<open>
  Witness for C7: one sample of 501 patients, and one sample of 1 patient, for tenant T on
  the Basic plan.
\<close>

theorem usage_event_per_sample_witness:
  "recordUsageMetric billing_store (patients_sample 501) =
     (billing_store\<lparr>usage_metrics := [usage_values (patients_sample 501)],
                    billing_events := [limit_exceeded_event 501]\<rparr>, Inr ())
   \<and> plan_limit billing_store ''tenant-t'' ''patients'' = Some 500
   \<and> recordUsageMetric billing_store (patients_sample 1) =
     (billing_store\<lparr>usage_metrics := [usage_values (patients_sample 1)]\<rparr>, Inr ())"
proof -
  have c1: "recordUsageMetric billing_store (patients_sample 501) =
     (billing_store\<lparr>usage_metrics := [usage_values (patients_sample 501)],
                    billing_events := [limit_exceeded_event 501]\<rparr>, Inr ())"
    by (simp add: usage_defs store_defs patients_sample_def limit_exceeded_event_def)
  have c2: "recordUsageMetric billing_store (patients_sample 1) =
     (billing_store\<lparr>usage_metrics := [usage_values (patients_sample 1)]\<rparr>, Inr ())"
    by (simp add: usage_defs store_defs patients_sample_def)
  have l: "plan_limit billing_store ''tenant-t'' ''patients'' = Some 500"
    by (simp add: usage_defs store_defs)
  note t1 = usage_event_per_sample [OF c1]
  note t2 = usage_event_per_sample [OF c2]
  from t1 t2 c1 c2 l show ?thesis by simp
qed

text \<open>
  Counterexample to C7 as stated: 501 samples of value 1 add up to 501 against the limit of
  500 and leave no overage event; two samples of value 501 leave two.
\<close>

theorem usage_events_counterexample:
  "record_samples 501 billing_store (patients_sample 1) =
     (billing_store\<lparr>usage_metrics := replicate 501 (usage_values (patients_sample 1))\<rparr>, Inr ())
   \<and> sum_list (map u_metric_value (replicate 501 (usage_values (patients_sample 1)))) = 501
   \<and> plan_limit billing_store ''tenant-t'' ''patients'' = Some 500
   \<and> events_of (billing_store\<lparr>usage_metrics := replicate 501 (usage_values (patients_sample 1))\<rparr>)
        ''tenant-t'' ''usage_limit_exceeded'' = []
   \<and> record_samples 2 billing_store (patients_sample 501) =
     (billing_store\<lparr>usage_metrics := [usage_values (patients_sample 501),
                                       usage_values (patients_sample 501)],
                    billing_events := [limit_exceeded_event 501, limit_exceeded_event 501]\<rparr>,
      Inr ())
   \<and> events_of (billing_store\<lparr>usage_metrics := [usage_values (patients_sample 501),
                                               usage_values (patients_sample 501)],
                    billing_events := [limit_exceeded_event 501, limit_exceeded_event 501]\<rparr>)
        ''tenant-t'' ''usage_limit_exceeded'' = [limit_exceeded_event 501, limit_exceeded_event 501]"
proof -
  have a: "record_samples 501 billing_store (patients_sample 1) =
            (billing_store\<lparr>usage_metrics := usage_metrics billing_store
                @ replicate 501 (usage_values (patients_sample 1))\<rparr>, Inr ())"
    by (rule record_samples_below_limit [where limit = 500])
       (simp_all add: patients_sample_def day_def plan_limit_def getTenantSubscription_def
          billing_store_def basic_plan_def subscription_t_def)
  have b: "sum_list (map u_metric_value (replicate 501 (usage_values (patients_sample 1)))) = 501"
    by (simp add: usage_values_def patients_sample_def sum_list_replicate)
  have c: "plan_limit billing_store ''tenant-t'' ''patients'' = Some 500"
    by (simp add: usage_defs store_defs)
  have d: "events_of (billing_store\<lparr>usage_metrics := replicate 501 (usage_values (patients_sample 1))\<rparr>)
        ''tenant-t'' ''usage_limit_exceeded'' = []"
    by (simp add: events_of_def billing_store_def)
  have e: "record_samples 2 billing_store (patients_sample 501) =
     (billing_store\<lparr>usage_metrics := [usage_values (patients_sample 501),
                                       usage_values (patients_sample 501)],
                    billing_events := [limit_exceeded_event 501, limit_exceeded_event 501]\<rparr>,
      Inr ())"
    by (simp add: numeral_2_eq_2 usage_defs store_defs patients_sample_def limit_exceeded_event_def)
  have f: "events_of (billing_store\<lparr>usage_metrics := [usage_values (patients_sample 501),
                                               usage_values (patients_sample 501)],
                    billing_events := [limit_exceeded_event 501, limit_exceeded_event 501]\<rparr>)
        ''tenant-t'' ''usage_limit_exceeded'' = [limit_exceeded_event 501, limit_exceeded_event 501]"
    by (simp add: events_of_def limit_exceeded_event_def)
  from a b c d e f show ?thesis by (simp add: billing_store_def)
qed

subsection \<open>Creating subscriptions\<close>

lemmas subscription_defs = createSubscription_def getPlanById_def insert_subscription_def
  createBillingEvent_def json_field_def billing_cycle_name_def Let_def

text \<open>
  What \<open>createSubscription\<close> stores as the end of the current period and as the next
  billing date.
\<close>

lemma createSubscription_period_end:
  assumes "createSubscription st now uuid subscriptionData = (st', Inr row)"
  shows "sub_current_period_end row =
           (case sub_trial_end row of Some t \<Rightarrow> t | None \<Rightarrow> Instant (getTime now))
       \<and> sub_next_billing_at row =
           Some (if sd_billingCycle subscriptionData = Yearly
                 then Local_date (getFullYear now + 1) (getMonth now) (getDate now)
                 else Local_date (getFullYear now) (getMonth now + 1) (getDate now))"
  using assms
  unfolding createSubscription_def Let_def insert_subscription_def
  by (auto split: option.splits if_splits)

text \<open>
  C8 at the failing input: a monthly subscription without trial days, created on
  15 January 2026. The stored end of the current period is the instant of creation; the
  date one month later is stored as the next billing date.
\<close>

theorem period_end_is_now:
  "createSubscription billing_store clock_jan15 ''subscription-n'' monthly_on_basic =
     (billing_store
        \<lparr>tenant_subscriptions :=
           [subscription_t,
            \<lparr>sub_id = ''subscription-n'', sub_tenant_id = ''tenant-n'', sub_plan_id = ''plan-basic'',
             sub_status = ''active'',
             sub_current_period_start = Instant 1768471200000,
             sub_current_period_end = Instant 1768471200000,
             sub_trial_end = None, sub_cancelled_at = None, sub_cancel_reason = None,
             sub_billing_cycle = Monthly, sub_price = 99, sub_currency = ''USD'',
             sub_auto_renew = True, sub_next_billing_at = Some (Local_date 2026 1 15)\<rparr>],
         billing_events :=
           [\<lparr>e_tenant_id = ''tenant-n'', e_event_type = ''subscription.created'',
             e_event_data = [(''subscriptionId'', JString ''subscription-n''),
                             (''planId'', JString ''plan-basic''),
                             (''billingCycle'', JString ''monthly'')],
             e_processed = False\<rparr>]\<rparr>,
      Inr \<lparr>sub_id = ''subscription-n'', sub_tenant_id = ''tenant-n'', sub_plan_id = ''plan-basic'',
           sub_status = ''active'',
           sub_current_period_start = Instant 1768471200000,
           sub_current_period_end = Instant 1768471200000,
           sub_trial_end = None, sub_cancelled_at = None, sub_cancel_reason = None,
           sub_billing_cycle = Monthly, sub_price = 99, sub_currency = ''USD'',
           sub_auto_renew = True, sub_next_billing_at = Some (Local_date 2026 1 15)\<rparr>)
   \<and> Instant (getTime clock_jan15) = Instant 1768471200000
   \<and> Instant 1768471200000 \<noteq> Local_date 2026 1 15"
  by (simp add: subscription_defs store_defs clock_jan15_def monthly_on_basic_def)

end
